theory Spec2Isabelle
  imports Main "HOL-Library.Multiset" "HOL-Library.Sublist"
begin

section \<open>Data model\<close>

text \<open>
  The program is one Python class, \<open>NCBIRetriever\<close>, and a \<open>main\<close> function.
  A GenBank record (Biopython's \<open>SeqRecord\<close>) is used through three attributes only:
  \<open>id\<close>, \<open>seq\<close> and \<open>description\<close>. The length of a record is never stored: it is
  always computed as \<open>len(rec.seq)\<close>.
\<close>

record SeqRecord =
  id' :: string
  seq :: string
  description :: string

text \<open>Python's \<open>len\<close> returns an unbounded integer.\<close>

definition len :: "'a list \<Rightarrow> int" where
  "len xs = int (length xs)"

section \<open>Exceptions\<close>

text \<open>
  Every failure the program can meet is an exception derived from Python's
  \<open>Exception\<close>: a missing dictionary key, an index out of range, a string that is not
  a number, end of input, a missing attribute, a file that cannot be written, and
  whatever the Entrez and SeqIO libraries raise (network and service errors, malformed
  payloads). A function that can
  raise returns \<open>Inl e\<close>; \<open>exc_str\<close> is \<open>str(e)\<close>, the text an f-string prints.
\<close>

datatype py_exception =
    KeyError string
  | IndexError string
  | ValueError string
  | EOFError string
  | AttributeError string
  | OSError string
  | LibraryError string

fun exc_str :: "py_exception \<Rightarrow> string" where
  "exc_str (KeyError k) = [CHR 0x27] @ k @ [CHR 0x27]"
| "exc_str (IndexError m) = m"
| "exc_str (ValueError m) = m"
| "exc_str (EOFError m) = m"
| "exc_str (AttributeError m) = m"
| "exc_str (OSError m) = m"
| "exc_str (LibraryError m) = m"

text \<open>\<open>d[k]\<close> on a dictionary and \<open>xs[0]\<close> on a list.\<close>

definition getitem :: "(string \<times> 'v) list \<Rightarrow> string \<Rightarrow> py_exception + 'v" where
  "getitem d k = (case map_of d k of None \<Rightarrow> Inl (KeyError k) | Some v \<Rightarrow> Inr v)"

definition getitem0 :: "'a list \<Rightarrow> py_exception + 'a" where
  "getitem0 xs = (case xs of [] \<Rightarrow> Inl (IndexError ''list index out of range'') | x # _ \<Rightarrow> Inr x)"

text \<open>\<open>str(n)\<close> for an integer, as an f-string formats it.\<close>

definition digit_char :: "nat \<Rightarrow> char" where
  "digit_char n = ''0123456789'' ! n"

fun str_nat :: "nat \<Rightarrow> string" where
  "str_nat n = (if n < 10 then [digit_char n] else str_nat (n div 10) @ [digit_char (n mod 10)])"

declare str_nat.simps [simp del]

definition str_int :: "int \<Rightarrow> string" where
  "str_int i = (if i < 0 then ''-'' @ str_nat (nat (- i)) else str_nat (nat i))"

section \<open>The world outside the program\<close>

text \<open>
  The keyword arguments of a call to \<open>Entrez.efetch\<close> or \<open>Entrez.esearch\<close>, in the
  order the source writes them, and the calls themselves.
\<close>

datatype arg = StrArg string | IntArg int

type_synonym kwargs = "(string \<times> arg) list"

datatype entrez_call = Efetch kwargs | Esearch kwargs

text \<open>
  What \<open>to_csv\<close> and \<open>savefig\<close> leave on disk: a table (a header row and data rows
  of cells) or a figure (the plotted series and its decoration).
\<close>

datatype cell = StrCell string | IntCell int

record csv_table =
  header :: "string list"
  body :: "cell list list"

record figure =
  figsize :: "int \<times> int"
  plot_x :: "string list"
  plot_y :: "int list"
  marker :: string
  xticks_rotation :: int
  title :: string
  xlabel :: string
  ylabel :: string

datatype file_content = CsvFile csv_table | ImageFile figure

text \<open>
  The state the program reads and writes: the lines waiting on standard input, what
  was written to standard output (one entry per \<open>print\<close> or prompt), the module-level
  configuration of \<open>Bio.Entrez\<close>, the remote calls issued so far, the file system, and
  the list objects that are passed by reference (an address is a position in \<open>heap\<close>).
\<close>

record world =
  stdin :: "string list"
  stdout :: "string list"
  entrez_email :: "string option"
  entrez_api_key :: "string option"
  entrez_tool :: "string option"
  calls :: "entrez_call list"
  files :: "string \<rightharpoonup> file_content"
  heap :: "SeqRecord list list"

definition py_print :: "string \<Rightarrow> world \<Rightarrow> world" where
  "py_print s w = w\<lparr>stdout := stdout w @ [s]\<rparr>"

definition issue :: "entrez_call \<Rightarrow> world \<Rightarrow> world" where
  "issue c w = w\<lparr>calls := calls w @ [c]\<rparr>"

definition write_file :: "string \<Rightarrow> file_content \<Rightarrow> world \<Rightarrow> world" where
  "write_file path f w = w\<lparr>files := (files w)(path \<mapsto> f)\<rparr>"

text \<open>
  \<open>input(prompt)\<close> writes the prompt and reads one line; at end of input it raises
  \<open>EOFError\<close>.
\<close>

definition py_input :: "string \<Rightarrow> world \<Rightarrow> (py_exception + string) \<times> world" where
  "py_input prompt w =
     (let w1 = w\<lparr>stdout := stdout w @ [prompt]\<rparr> in
      case stdin w1 of
        [] \<Rightarrow> (Inl (EOFError ''EOF when reading a line''), w1)
      | l # ls \<Rightarrow> (Inr l, w1\<lparr>stdin := ls\<rparr>))"

text \<open>
  The external collaborators, whose code is not part of the program, are parameters:
  the two remote calls (each answers with a handle on the raw payload, or raises),
  \<open>Entrez.read\<close> on the answer of a taxonomy fetch (a list of dictionaries) and on the
  answer of a search (a dictionary), \<open>list(SeqIO.parse(handle, format))\<close>, and the
  builtin \<open>int\<close> on a string.

  The two library calls that write a file can fail as well, and the file system
  decides. \<open>to_csv_raises path\<close> is \<open>None\<close> when pandas can write the table at \<open>path\<close>,
  and the exception it raises otherwise (an \<open>OSError\<close> when the directory does not
  exist); then nothing is written. \<open>savefig_path name\<close> is the path matplotlib writes
  the figure to, which is \<open>name\<close> itself or, for a name without extension, \<open>name\<close>
  with \<open>.png\<close> appended, or the exception \<open>savefig\<close> raises (an unsupported
  extension, a directory that does not exist); then nothing is written.
\<close>

record env =
  efetch :: "kwargs \<Rightarrow> py_exception + string"
  esearch :: "kwargs \<Rightarrow> py_exception + string"
  read_taxonomy :: "string \<Rightarrow> py_exception + (string \<times> string) list list"
  read_esearch :: "string \<Rightarrow> py_exception + (string \<times> string) list"
  seqio_parse :: "string \<Rightarrow> string \<Rightarrow> py_exception + SeqRecord list"
  py_int :: "string \<Rightarrow> py_exception + int"
  to_csv_raises :: "string \<Rightarrow> py_exception option"
  savefig_path :: "string \<Rightarrow> py_exception + string"

section \<open>The retriever object\<close>

text \<open>
  \<open>__init__\<close> sets the module-level Entrez configuration and creates no attribute.
  \<open>search_taxid\<close> creates \<open>webenv\<close>, \<open>query_key\<close> and \<open>count\<close>; an attribute that does
  not exist yet is \<open>None\<close>, so \<open>hasattr(self, 'webenv')\<close> is \<open>webenv self \<noteq> None\<close>.
\<close>

record retriever =
  webenv :: "string option"
  query_key :: "string option"
  count' :: "int option"

definition init :: "string \<Rightarrow> string \<Rightarrow> world \<Rightarrow> retriever \<times> world" where
  "init email api_key w =
     (\<lparr>webenv = None, query_key = None, count' = None\<rparr>,
      w\<lparr>entrez_email := Some email, entrez_api_key := Some api_key,
        entrez_tool := Some ''BioScriptEx10''\<rparr>)"

subsection \<open>search_taxid\<close>

definition taxonomy_args :: "string \<Rightarrow> kwargs" where
  "taxonomy_args taxid =
     [(''db'', StrArg ''taxonomy''), (''id'', StrArg taxid), (''retmode'', StrArg ''xml'')]"

definition esearch_args :: "string \<Rightarrow> kwargs" where
  "esearch_args taxid =
     [(''db'', StrArg ''nucleotide''), (''term'', StrArg (''txid'' @ taxid @ ''[Organism]'')),
      (''usehistory'', StrArg ''y'')]"

text \<open>
  The body of the \<open>try\<close> block (lines 13 to 31). It returns the exception raised or the
  value returned, together with the object and the world as they are at that moment:
  an assignment to \<open>self\<close> made before an exception stays made.
\<close>

definition search_body ::
  "env \<Rightarrow> retriever \<Rightarrow> string \<Rightarrow> world \<Rightarrow> (py_exception + int option) \<times> retriever \<times> world" where
  "search_body e self taxid w =
     (let w1 = issue (Efetch (taxonomy_args taxid)) w in
      case efetch e (taxonomy_args taxid) of Inl x \<Rightarrow> (Inl x, self, w1) | Inr handle \<Rightarrow>
     (case read_taxonomy e handle of Inl x \<Rightarrow> (Inl x, self, w1) | Inr records \<Rightarrow>
     (case getitem0 records of Inl x \<Rightarrow> (Inl x, self, w1) | Inr record0 \<Rightarrow>
     (case getitem record0 ''ScientificName'' of Inl x \<Rightarrow> (Inl x, self, w1) | Inr organism_name \<Rightarrow>
     (let w2 = py_print (''Organism: '' @ organism_name @ '' (TaxID: '' @ taxid @ '')'') w1;
          w3 = issue (Esearch (esearch_args taxid)) w2 in
      case esearch e (esearch_args taxid) of Inl x \<Rightarrow> (Inl x, self, w3) | Inr handle2 \<Rightarrow>
     (case read_esearch e handle2 of Inl x \<Rightarrow> (Inl x, self, w3) | Inr search_results \<Rightarrow>
     (case getitem search_results ''Count'' of Inl x \<Rightarrow> (Inl x, self, w3) | Inr c \<Rightarrow>
     (case py_int e c of Inl x \<Rightarrow> (Inl x, self, w3) | Inr cnt \<Rightarrow>
     (let w4 = py_print (''Found '' @ str_int cnt @ '' records for '' @ organism_name
                          @ '' (TaxID: '' @ taxid @ '')'') w3 in
      if cnt = 0 then (Inr None, self, w4) else
      case getitem search_results ''WebEnv'' of Inl x \<Rightarrow> (Inl x, self, w4) | Inr we \<Rightarrow>
     (let self1 = self\<lparr>webenv := Some we\<rparr> in
      case getitem search_results ''QueryKey'' of Inl x \<Rightarrow> (Inl x, self1, w4) | Inr qk \<Rightarrow>
     (let self2 = self1\<lparr>query_key := Some qk\<rparr>;
          self3 = self2\<lparr>count' := Some cnt\<rparr> in
      (Inr (Some cnt), self3, w4))))))))))))"

text \<open>
  The method: the first \<open>print\<close>, the \<open>try\<close> block, and the handler
  \<open>except Exception as e\<close>, which prints and returns \<open>None\<close>.
\<close>

definition search_taxid ::
  "env \<Rightarrow> retriever \<Rightarrow> string \<Rightarrow> world \<Rightarrow> (py_exception + int option) \<times> retriever \<times> world" where
  "search_taxid e self taxid w =
     (case search_body e self taxid (py_print (''Searching for records with taxID: '' @ taxid) w) of
        (Inl x, self1, w1) \<Rightarrow>
          (Inr None, self1, py_print (''Error searching TaxID '' @ taxid @ '': '' @ exc_str x) w1)
      | (Inr result, self1, w1) \<Rightarrow> (Inr result, self1, w1))"

subsection \<open>fetch_records\<close>

definition efetch_args :: "int \<Rightarrow> int \<Rightarrow> string \<Rightarrow> string \<Rightarrow> kwargs" where
  "efetch_args start batch_size we qk =
     [(''db'', StrArg ''nucleotide''), (''rettype'', StrArg ''gb''), (''retmode'', StrArg ''text''),
      (''retstart'', IntArg start), (''retmax'', IntArg batch_size),
      (''webenv'', StrArg we), (''query_key'', StrArg qk)]"

text \<open>The body of the \<open>try\<close> block (lines 43 to 54).\<close>

definition fetch_body ::
  "env \<Rightarrow> retriever \<Rightarrow> int \<Rightarrow> int \<Rightarrow> world \<Rightarrow> (py_exception + SeqRecord list) \<times> world" where
  "fetch_body e self start max_records w =
     (let batch_size = min max_records 500 in
      case webenv self of
        None \<Rightarrow> (Inl (AttributeError ''webenv''), w)
      | Some we \<Rightarrow>
     (case query_key self of
        None \<Rightarrow> (Inl (AttributeError ''query_key''), w)
      | Some qk \<Rightarrow>
     (let w1 = issue (Efetch (efetch_args start batch_size we qk)) w in
      case efetch e (efetch_args start batch_size we qk) of Inl x \<Rightarrow> (Inl x, w1) | Inr handle \<Rightarrow>
     (case seqio_parse e handle ''gb'' of Inl x \<Rightarrow> (Inl x, w1) | Inr records \<Rightarrow>
      (Inr records, w1)))))"

definition fetch_records ::
  "env \<Rightarrow> retriever \<Rightarrow> int \<Rightarrow> int \<Rightarrow> world \<Rightarrow> (py_exception + SeqRecord list) \<times> world" where
  "fetch_records e self start max_records w =
     (if webenv self = None \<or> query_key self = None
      then (Inr [], py_print ''No search results to fetch. Run search_taxid() first.'' w)
      else case fetch_body e self start max_records w of
             (Inl x, w1) \<Rightarrow> (Inr [], py_print (''Error fetching records: '' @ exc_str x) w1)
           | (Inr records, w1) \<Rightarrow> (Inr records, w1))"

section \<open>filter_by_length\<close>

text \<open>
  \<^verbatim>\<open>return [rec for rec in records if min_len <= len(rec.seq) <= max_len]\<close>

  The comprehension is a loop over \<open>records\<close> that appends the elements passing the
  test to a fresh list; the chained comparison is a conjunction.
\<close>

fun filter_by_length :: "SeqRecord list \<Rightarrow> int \<Rightarrow> int \<Rightarrow> SeqRecord list" where
  "filter_by_length [] min_len max_len = []"
| "filter_by_length (r # records) min_len max_len =
     (if min_len \<le> len (seq r) \<and> len (seq r) \<le> max_len
      then r # filter_by_length records min_len max_len
      else filter_by_length records min_len max_len)"

text \<open>
  The specification's wording of the same operation: the records whose length lies in
  the closed range, in their original order.
\<close>

definition in_range :: "int \<Rightarrow> int \<Rightarrow> SeqRecord \<Rightarrow> bool" where
  "in_range lo hi r \<longleftrightarrow> lo \<le> len (seq r) \<and> len (seq r) \<le> hi"

definition spec_filter :: "SeqRecord list \<Rightarrow> int \<Rightarrow> int \<Rightarrow> SeqRecord list" where
  "spec_filter R lo hi = filter (in_range lo hi) R"

section \<open>generate_csv\<close>

text \<open>
  \<^verbatim>\<open>data = [(record.id, len(record.seq), record.description) for record in records]\<close>
  \<^verbatim>\<open>pd.DataFrame(data, columns=[...]).to_csv(filename, index=False)\<close>

  A data frame is its column names and its rows. \<open>to_csv\<close> writes the column names
  as the header row and then the rows; with \<open>index=True\<close> it would put the row number
  in front of every row, and an empty name in front of the header. When \<open>to_csv\<close>
  raises, the exception leaves \<open>generate_csv\<close>: no file is written and the line
  \<open>Saved CSV report\<close> is not printed.
\<close>

record dataframe =
  columns :: "string list"
  data :: "cell list list"

definition DataFrame :: "cell list list \<Rightarrow> string list \<Rightarrow> dataframe" where
  "DataFrame d cols = \<lparr>columns = cols, data = d\<rparr>"

definition to_csv :: "dataframe \<Rightarrow> bool \<Rightarrow> csv_table" where
  "to_csv df index =
     (if index
      then \<lparr>header = [] # columns df,
            body = map (\<lambda>(i, row). IntCell (int i) # row) (enumerate 0 (data df))\<rparr>
      else \<lparr>header = columns df, body = data df\<rparr>)"

fun csv_data :: "SeqRecord list \<Rightarrow> cell list list" where
  "csv_data [] = []"
| "csv_data (record # records) =
     [StrCell (id' record), IntCell (len (seq record)), StrCell (description record)]
       # csv_data records"

definition generate_csv ::
  "env \<Rightarrow> SeqRecord list \<Rightarrow> string \<Rightarrow> world \<Rightarrow> (py_exception + unit) \<times> world" where
  "generate_csv e records filename w =
     (let d = csv_data records;
          df = DataFrame d [''Accession number'', ''Length'', ''Description'']
      in case to_csv_raises e filename of
           Some x \<Rightarrow> (Inl x, w)
         | None \<Rightarrow>
            (let w1 = write_file filename (CsvFile (to_csv df False)) w
             in (Inr (), py_print (''Saved CSV report to '' @ filename) w1)))"

section \<open>generate_plot\<close>

text \<open>
  A list handed to a method is handed by reference, and a method could change it in
  place. The list objects are the entries of \<open>heap\<close>; a reference is a position in it,
  and a reference the program holds is always a position that exists.

  \<open>list.sort(key, reverse)\<close> sorts the object in place; the sort is stable, and with
  \<open>reverse=True\<close> it is the stable ascending sort of the reversed list, reversed, so
  that equal keys keep their original order. \<open>sorted(xs, key, reverse)\<close> builds a
  new list object from \<open>xs\<close> and sorts that one.
\<close>

definition new_list :: "SeqRecord list \<Rightarrow> world \<Rightarrow> nat \<times> world" where
  "new_list xs w = (length (heap w), w\<lparr>heap := heap w @ [xs]\<rparr>)"

definition deref :: "world \<Rightarrow> nat \<Rightarrow> SeqRecord list" where
  "deref w a = heap w ! a"

definition stable_sort :: "('a \<Rightarrow> int) \<Rightarrow> bool \<Rightarrow> 'a list \<Rightarrow> 'a list" where
  "stable_sort key reverse xs =
     (if reverse then rev (sort_key key (rev xs)) else sort_key key xs)"

definition list_sort :: "nat \<Rightarrow> (SeqRecord \<Rightarrow> int) \<Rightarrow> bool \<Rightarrow> world \<Rightarrow> world" where
  "list_sort a key reverse w = w\<lparr>heap := (heap w)[a := stable_sort key reverse (deref w a)]\<rparr>"

definition sorted_py :: "nat \<Rightarrow> (SeqRecord \<Rightarrow> int) \<Rightarrow> bool \<Rightarrow> world \<Rightarrow> nat \<times> world" where
  "sorted_py a key reverse w =
     (let (b, w1) = new_list (deref w a) w in (b, list_sort b key reverse w1))"

text \<open>
  \<^verbatim>\<open>sorted_records = sorted(records, key=lambda r: len(r.seq), reverse=True)\<close>
  \<^verbatim>\<open>args = [rec.id for rec in sorted_records]\<close>
  \<^verbatim>\<open>lengths = [len(rec.seq) for rec in sorted_records]\<close>
  and then the figure is drawn, saved and closed. When \<open>savefig\<close> raises, the
  exception leaves \<open>generate_plot\<close>: no file is written and the line \<open>Saved plot\<close>
  is not printed; the sorted copy has been built by then.
\<close>

definition generate_plot ::
  "env \<Rightarrow> nat \<Rightarrow> string \<Rightarrow> world \<Rightarrow> (py_exception + unit) \<times> world" where
  "generate_plot e records filename w =
     (let (sorted_records, w1) = sorted_py records (\<lambda>r. len (seq r)) True w;
          args = map id' (deref w1 sorted_records);
          lengths = map (\<lambda>r. len (seq r)) (deref w1 sorted_records);
          fig = \<lparr>figsize = (20, 5), plot_x = args, plot_y = lengths, marker = ''o'',
                 xticks_rotation = 90, title = ''GenBank Record Lengths'',
                 xlabel = ''Accession number'', ylabel = ''Sequence length''\<rparr>
      in case savefig_path e filename of
           Inl x \<Rightarrow> (Inl x, w1)
         | Inr path \<Rightarrow>
            (let w2 = write_file path (ImageFile fig) w1
             in (Inr (), py_print (''Saved plot to '' @ filename) w2)))"

section \<open>main\<close>

text \<open>
  Lines 86 to 94: the five prompts, the construction of the retriever, and the two
  conversions with \<open>int\<close>, whose \<open>ValueError\<close> is not caught.
\<close>

definition read_inputs ::
  "env \<Rightarrow> world \<Rightarrow> (py_exception + retriever \<times> string \<times> int \<times> int) \<times> world" where
  "read_inputs e w =
     (case py_input ''Enter your email address for NCBI: '' w of
        (Inl x, w1) \<Rightarrow> (Inl x, w1)
      | (Inr email, w1) \<Rightarrow>
     (case py_input ''Enter your NCBI API key: '' w1 of
        (Inl x, w2) \<Rightarrow> (Inl x, w2)
      | (Inr api_key, w2) \<Rightarrow>
     (let (retriever, w3) = init email api_key w2 in
      case py_input ''Enter taxonomic ID (taxid) of the organism: '' w3 of
        (Inl x, w4) \<Rightarrow> (Inl x, w4)
      | (Inr taxid, w4) \<Rightarrow>
     (case py_input ''Enter minimum sequence length: '' w4 of
        (Inl x, w5) \<Rightarrow> (Inl x, w5)
      | (Inr s1, w5) \<Rightarrow>
     (case py_int e s1 of
        Inl x \<Rightarrow> (Inl x, w5)
      | Inr min_len \<Rightarrow>
     (case py_input ''Enter maximum sequence length: '' w5 of
        (Inl x, w6) \<Rightarrow> (Inl x, w6)
      | (Inr s2, w6) \<Rightarrow>
     (case py_int e s2 of
        Inl x \<Rightarrow> (Inl x, w6)
      | Inr max_len \<Rightarrow> (Inr (retriever, taxid, min_len, max_len), w6))))))))"

text \<open>
  Lines 96 to 115. \<open>not count\<close> holds for \<open>None\<close> and for \<open>0\<close>; \<open>not filtered\<close> holds
  for the empty list. The list that \<open>filter_by_length\<close> returns is a new object, which
  \<open>generate_csv\<close> reads and \<open>generate_plot\<close> receives by reference. An exception
  that leaves \<open>generate_csv\<close> or \<open>generate_plot\<close> is not caught: it ends \<open>main\<close>.
\<close>

definition falsy :: "int option \<Rightarrow> bool" where
  "falsy c = (case c of None \<Rightarrow> True | Some n \<Rightarrow> n = 0)"

definition pipeline ::
  "env \<Rightarrow> retriever \<Rightarrow> string \<Rightarrow> int \<Rightarrow> int \<Rightarrow> world \<Rightarrow> (py_exception + unit) \<times> world" where
  "pipeline e retriever taxid min_len max_len w =
     (case search_taxid e retriever taxid w of
        (Inl x, r1, w1) \<Rightarrow> (Inl x, w1)
      | (Inr c, r1, w1) \<Rightarrow>
     (if falsy c then (Inr (), py_print ''No records found. Exiting.'' w1)
      else
       (let w2 = py_print (CHR 0x0A # ''Fetching records...'') w1 in
        case fetch_records e r1 0 200 w2 of
          (Inl x, w3) \<Rightarrow> (Inl x, w3)
        | (Inr all_records, w3) \<Rightarrow>
       (let w4 = py_print (''Fetched '' @ str_int (len all_records)
                            @ '' records. Filtering by length...'') w3;
            (filtered, w5) = new_list (filter_by_length all_records min_len max_len) w4
        in if deref w5 filtered = []
           then (Inr (), py_print ''No records matched the length criteria.'' w5)
           else
            (let csv_file = ''taxid_'' @ taxid @ ''_report.csv'' in
             case generate_csv e (deref w5 filtered) csv_file w5 of
               (Inl x, w6) \<Rightarrow> (Inl x, w6)
             | (Inr u, w6) \<Rightarrow>
            (let plot_file = ''taxid_'' @ taxid @ ''_plot.png''
             in generate_plot e filtered plot_file w6))))))"

definition main :: "env \<Rightarrow> world \<Rightarrow> (py_exception + unit) \<times> world" where
  "main e w =
     (case read_inputs e w of
        (Inl x, w1) \<Rightarrow> (Inl x, w1)
      | (Inr (retriever, taxid, min_len, max_len), w1) \<Rightarrow>
          pipeline e retriever taxid min_len max_len w1)"

section \<open>Outcomes of the two lookup steps\<close>

text \<open>
  What the first step of \<open>search_taxid\<close> (lines 13 to 15) and its second step (lines 18
  to 20) evaluate to under a given service: the organism name and the match count, or
  the exception that stops the step. They are used to say which run is meant.
\<close>

definition organism_lookup :: "env \<Rightarrow> string \<Rightarrow> py_exception + string" where
  "organism_lookup e taxid =
     (case efetch e (taxonomy_args taxid) of Inl x \<Rightarrow> Inl x | Inr handle \<Rightarrow>
     (case read_taxonomy e handle of Inl x \<Rightarrow> Inl x | Inr records \<Rightarrow>
     (case getitem0 records of Inl x \<Rightarrow> Inl x | Inr record0 \<Rightarrow>
      getitem record0 ''ScientificName'')))"

definition count_lookup :: "env \<Rightarrow> string \<Rightarrow> py_exception + int" where
  "count_lookup e taxid =
     (case esearch e (esearch_args taxid) of Inl x \<Rightarrow> Inl x | Inr handle \<Rightarrow>
     (case read_esearch e handle of Inl x \<Rightarrow> Inl x | Inr search_results \<Rightarrow>
     (case getitem search_results ''Count'' of Inl x \<Rightarrow> Inl x | Inr c \<Rightarrow>
      py_int e c)))"

text \<open>The lines printed on the two ways to \<open>None\<close>.\<close>

definition found_line :: "int \<Rightarrow> string \<Rightarrow> string \<Rightarrow> string" where
  "found_line n organism_name taxid =
     ''Found '' @ str_int n @ '' records for '' @ organism_name @ '' (TaxID: '' @ taxid @ '')''"

definition error_line :: "string \<Rightarrow> py_exception \<Rightarrow> string" where
  "error_line taxid x = ''Error searching TaxID '' @ taxid @ '': '' @ exc_str x"

text \<open>
  The answer to the search (lines 18 and 19), and the one kind of run in which
  \<open>search_taxid\<close> assigns \<open>self.webenv\<close> at line 27 and then raises at line 28: both
  lookup steps succeed, the count is not 0, and the answer carries \<open>WebEnv\<close> but no
  \<open>QueryKey\<close>.
\<close>

definition search_answer :: "env \<Rightarrow> string \<Rightarrow> py_exception + (string \<times> string) list" where
  "search_answer e taxid =
     (case esearch e (esearch_args taxid) of Inl x \<Rightarrow> Inl x | Inr handle \<Rightarrow>
      read_esearch e handle)"

definition handle_incomplete :: "env \<Rightarrow> string \<Rightarrow> bool" where
  "handle_incomplete e taxid =
     (case organism_lookup e taxid of
        Inl x \<Rightarrow> False
      | Inr organism_name \<Rightarrow>
     (case count_lookup e taxid of
        Inl x \<Rightarrow> False
      | Inr cnt \<Rightarrow>
     (case search_answer e taxid of
        Inl x \<Rightarrow> False
      | Inr search_results \<Rightarrow>
          cnt \<noteq> 0 \<and> map_of search_results ''WebEnv'' \<noteq> None
            \<and> map_of search_results ''QueryKey'' = None)))"

section \<open>Sequences of method calls\<close>

text \<open>
  The methods of the class, as calls on one retriever object; a sequence of calls runs
  from left to right, each under the service as it is at that moment. Return values
  are dropped: what matters here is the object and the world.
\<close>

datatype method_call =
    Search_taxid string
  | Fetch_records int int
  | Filter_by_length "SeqRecord list" int int
  | Generate_csv "SeqRecord list" string
  | Generate_plot nat string

fun invoke :: "env \<Rightarrow> method_call \<Rightarrow> retriever \<times> world \<Rightarrow> retriever \<times> world" where
  "invoke e (Search_taxid taxid) (self, w) = snd (search_taxid e self taxid w)"
| "invoke e (Fetch_records start max_records) (self, w) =
     (self, snd (fetch_records e self start max_records w))"
| "invoke e (Filter_by_length records min_len max_len) (self, w) = (self, w)"
| "invoke e (Generate_csv records filename) (self, w) =
     (self, snd (generate_csv e records filename w))"
| "invoke e (Generate_plot records filename) (self, w) =
     (self, snd (generate_plot e records filename w))"

fun run :: "(env \<times> method_call) list \<Rightarrow> retriever \<times> world \<Rightarrow> retriever \<times> world" where
  "run [] s = s"
| "run ((e, c) # cs) s = run cs (invoke e c s)"

definition is_nucleotide_efetch :: "entrez_call \<Rightarrow> bool" where
  "is_nucleotide_efetch c =
     (case c of Efetch kw \<Rightarrow> map_of kw ''db'' = Some (StrArg ''nucleotide'') | Esearch kw \<Rightarrow> False)"

section \<open>Example inputs\<close>

definition world0 :: world where
  "world0 = \<lparr>stdin = [], stdout = [], entrez_email = None, entrez_api_key = None,
     entrez_tool = None, calls = [], files = Map.empty, heap = []\<rparr>"

definition records3 :: "SeqRecord list" where
  "records3 =
     [\<lparr>id' = ''A1'', seq = ''ACGT'', description = ''first''\<rparr>,
      \<lparr>id' = ''A2'', seq = ''ACGTACGT'', description = ''second''\<rparr>,
      \<lparr>id' = ''A3'', seq = ''ACGTAC'', description = ''third''\<rparr>]"

definition int_of_decimal :: "string \<Rightarrow> py_exception + int" where
  "int_of_decimal s =
     (if s = ''0'' then Inr 0 else if s = ''3'' then Inr 3 else if s = ''5'' then Inr 5
      else if s = ''7'' then Inr 7
      else Inl (ValueError ''invalid literal for int() with base 10''))"

definition service_ok :: env where
  "service_ok =
     \<lparr>efetch = (\<lambda>kw. Inr ''payload''),
      esearch = (\<lambda>kw. Inr ''payload''),
      read_taxonomy = (\<lambda>h. Inr [[(''ScientificName'', ''Homo sapiens'')]]),
      read_esearch = (\<lambda>h. Inr [(''Count'', ''3''), (''WebEnv'', ''WE1''), (''QueryKey'', ''1'')]),
      seqio_parse = (\<lambda>h fmt. Inr records3),
      py_int = int_of_decimal,
      to_csv_raises = (\<lambda>path. None),
      savefig_path = (\<lambda>name. if name = ''plot'' then Inr ''plot.png'' else Inr name)\<rparr>"

definition service_zero :: env where
  "service_zero = service_ok\<lparr>read_esearch := (\<lambda>h. Inr [(''Count'', ''0'')])\<rparr>"

definition service_down :: env where
  "service_down = service_ok
     \<lparr>efetch := (\<lambda>kw. Inl (LibraryError ''HTTP Error 502: Bad Gateway'')),
      esearch := (\<lambda>kw. Inl (LibraryError ''HTTP Error 502: Bad Gateway''))\<rparr>"

definition service_garbled :: env where
  "service_garbled = service_ok\<lparr>seqio_parse := (\<lambda>h fmt. Inl (ValueError ''Premature end of line''))\<rparr>"


definition service_no_directory :: env where
  "service_no_directory = service_ok
     \<lparr>to_csv_raises :=
        (\<lambda>path. Some (OSError ''Cannot save file into a non-existent directory'')),
      savefig_path := (\<lambda>name. Inl (OSError ''No such file or directory''))\<rparr>"

definition no_session :: retriever where
  "no_session = \<lparr>webenv = None, query_key = None, count' = None\<rparr>"

definition session1 :: retriever where
  "session1 = \<lparr>webenv = Some ''WE1'', query_key = Some ''1'', count' = Some 3\<rparr>"

text \<open>Reading back what was written: the table, and the plotted series, stored at a path.\<close>

definition table_at :: "world \<Rightarrow> string \<Rightarrow> csv_table option" where
  "table_at w path =
     (case files w path of Some (CsvFile t) \<Rightarrow> Some t | Some (ImageFile fig) \<Rightarrow> None | None \<Rightarrow> None)"

definition plotted_at :: "world \<Rightarrow> string \<Rightarrow> (string list \<times> int list) option" where
  "plotted_at w path =
     (case files w path of
        Some (ImageFile fig) \<Rightarrow> Some (plot_x fig, plot_y fig)
      | Some (CsvFile t) \<Rightarrow> None
      | None \<Rightarrow> None)"

definition records_ties :: "SeqRecord list" where
  "records_ties =
     [\<lparr>id' = ''B1'', seq = ''ACGT'', description = ''short one''\<rparr>,
      \<lparr>id' = ''B2'', seq = ''ACGTACGT'', description = ''long''\<rparr>,
      \<lparr>id' = ''B3'', seq = ''TTTT'', description = ''short two''\<rparr>]"

definition world_with_list :: world where
  "world_with_list = world0\<lparr>heap := [records_ties]\<rparr>"

definition world_with_inputs :: world where
  "world_with_inputs = world0\<lparr>stdin := [''me@lab.org'', ''secret'', ''9606'', ''3'', ''7'']\<rparr>"

definition world_with_slash :: world where
  "world_with_slash = world0\<lparr>stdin := [''me@lab.org'', ''secret'', ''96/06'', ''3'', ''7'']\<rparr>"

section \<open>Properties of filter_by_length\<close>

lemma filter_by_length_eq_filter:
  "filter_by_length R lo hi = filter (in_range lo hi) R"
  by (induction R) (simp_all add: in_range_def)

lemma in_range_empty: "hi < lo \<Longrightarrow> \<not> in_range lo hi r"
  by (simp add: in_range_def)

text \<open>
  Claim C6. For all records \<open>R\<close> and bounds \<open>lo\<close>, \<open>hi\<close>, \<open>filter_by_length R lo hi\<close>
  is exactly the subsequence of \<open>R\<close> of the records with \<open>lo \<le> len(seq) \<le> hi\<close>, both
  bounds inclusive, in the original order: it equals the specification's filter, it is
  a subsequence of \<open>R\<close>, it keeps every occurrence of a record in range and no other
  record. Empty input gives empty output, and \<open>lo > hi\<close> gives empty output.
\<close>

theorem filter_by_length_exact:
  "filter_by_length R lo hi = spec_filter R lo hi
   \<and> subseq (filter_by_length R lo hi) R
   \<and> mset (filter_by_length R lo hi) = filter_mset (in_range lo hi) (mset R)
   \<and> filter_by_length [] lo hi = []
   \<and> (hi < lo \<longrightarrow> filter_by_length R lo hi = [])"
proof -
  have eq: "filter_by_length R lo hi = filter (in_range lo hi) R"
    by (rule filter_by_length_eq_filter)
  have empty: "hi < lo \<longrightarrow> filter (in_range lo hi) R = []"
    by (simp add: in_range_empty)
  show ?thesis
    unfolding eq spec_filter_def using empty by simp
qed

theorem filter_by_length_exact_witness:
  "(3::int) < 5
   \<and> filter_by_length
        [\<lparr>id' = ''A1'', seq = ''ACGT'', description = ''d1''\<rparr>,
         \<lparr>id' = ''A2'', seq = ''ACGTAC'', description = ''d2''\<rparr>] 5 3 = []
   \<and> filter_by_length
        [\<lparr>id' = ''A1'', seq = ''ACGT'', description = ''d1''\<rparr>,
         \<lparr>id' = ''A2'', seq = ''ACGTAC'', description = ''d2''\<rparr>,
         \<lparr>id' = ''A3'', seq = ''AC'', description = ''d3''\<rparr>] 4 6
       = [\<lparr>id' = ''A1'', seq = ''ACGT'', description = ''d1''\<rparr>,
          \<lparr>id' = ''A2'', seq = ''ACGTAC'', description = ''d2''\<rparr>]"
  using filter_by_length_exact
    [of "[\<lparr>id' = ''A1'', seq = ''ACGT'', description = ''d1''\<rparr>,
          \<lparr>id' = ''A2'', seq = ''ACGTAC'', description = ''d2''\<rparr>]" 5 3]
  by (simp add: len_def)

text \<open>
  Claim C7. \<open>filter_by_length\<close> is idempotent: filtering an already filtered sequence
  with the same bounds changes nothing.
\<close>

theorem filter_by_length_idempotent:
  "filter_by_length (filter_by_length R lo hi) lo hi = filter_by_length R lo hi"
  by (simp add: filter_by_length_eq_filter)

section \<open>Properties of fetch_records\<close>

lemma fetch_body_with_session:
  assumes "webenv self = Some we" and "query_key self = Some qk"
  shows "fetch_body e self start max_records w =
     (case efetch e (efetch_args start (min max_records 500) we qk) of
        Inl x \<Rightarrow> (Inl x, issue (Efetch (efetch_args start (min max_records 500) we qk)) w)
      | Inr handle \<Rightarrow>
         (case seqio_parse e handle ''gb'' of
            Inl x \<Rightarrow> (Inl x, issue (Efetch (efetch_args start (min max_records 500) we qk)) w)
          | Inr records \<Rightarrow>
              (Inr records, issue (Efetch (efetch_args start (min max_records 500) we qk)) w)))"
  using assms by (simp add: fetch_body_def Let_def)

lemma fetch_records_never_raises:
  "\<exists>records. fst (fetch_records e self start max_records w) = Inr records"
  by (auto simp: fetch_records_def split: prod.splits sum.splits)

lemma fetch_records_leaves_a_trace:
  "snd (fetch_records e self start max_records w) \<noteq> w"
proof (cases "webenv self = None \<or> query_key self = None")
  case True
  then have "stdout (snd (fetch_records e self start max_records w)) \<noteq> stdout w"
    by (simp add: fetch_records_def py_print_def)
  then show ?thesis by auto
next
  case False
  then obtain we qk where s: "webenv self = Some we" "query_key self = Some qk"
    by auto
  have "calls (snd (fetch_records e self start max_records w)) \<noteq> calls w"
    using False
    by (simp add: fetch_records_def fetch_body_with_session [OF s] issue_def py_print_def
        split: sum.splits)
  then show ?thesis by auto
qed

text \<open>
  Claim C1. A call to \<open>fetch_records\<close> on a retriever with no stored session handle
  (one of \<open>webenv\<close>, \<open>query_key\<close> does not exist) does not raise: it returns the empty
  list, prints the diagnostic line, issues no remote call and writes no file.
\<close>

theorem fetch_records_without_session:
  assumes "webenv self = None \<or> query_key self = None"
  shows "fst (fetch_records e self start max_records w) = Inr []
       \<and> stdout (snd (fetch_records e self start max_records w))
           = stdout w @ [''No search results to fetch. Run search_taxid() first.'']
       \<and> calls (snd (fetch_records e self start max_records w)) = calls w
       \<and> files (snd (fetch_records e self start max_records w)) = files w"
  using assms by (simp add: fetch_records_def py_print_def)

theorem fetch_records_without_session_witness:
  "(webenv (fst (init ''me@lab.org'' ''secret'' world0)) = None
      \<or> query_key (fst (init ''me@lab.org'' ''secret'' world0)) = None)
   \<and> fst (fetch_records service_ok (fst (init ''me@lab.org'' ''secret'' world0)) 0 200
            (snd (init ''me@lab.org'' ''secret'' world0))) = Inr []
   \<and> stdout (snd (fetch_records service_ok (fst (init ''me@lab.org'' ''secret'' world0)) 0 200
            (snd (init ''me@lab.org'' ''secret'' world0))))
       = [''No search results to fetch. Run search_taxid() first.'']"
  using fetch_records_without_session
    [where self = "fst (init ''me@lab.org'' ''secret'' world0)" and e = service_ok
       and start = 0 and max_records = 200
       and w = "snd (init ''me@lab.org'' ''secret'' world0)"]
  by (simp add: init_def world0_def)

text \<open>
  Claim C2. With a session handle stored, \<open>fetch_records\<close> issues exactly one remote
  call, a nucleotide \<open>efetch\<close> that starts at \<open>start\<close> and whose \<open>retmax\<close> is
  \<open>min(max_records, 500)\<close>, hence at most 500 whatever \<open>max_records\<close> is.
\<close>

theorem fetch_records_batch_cap:
  assumes "webenv self = Some we" and "query_key self = Some qk"
  shows "calls (snd (fetch_records e self start max_records w))
           = calls w @ [Efetch (efetch_args start (min max_records 500) we qk)]
       \<and> map_of (efetch_args start (min max_records 500) we qk) ''retmax''
           = Some (IntArg (min max_records 500))
       \<and> map_of (efetch_args start (min max_records 500) we qk) ''retstart''
           = Some (IntArg start)
       \<and> min max_records 500 \<le> 500"
proof -
  have "calls (snd (fetch_records e self start max_records w))
           = calls w @ [Efetch (efetch_args start (min max_records 500) we qk)]"
    using assms
    by (simp add: fetch_records_def fetch_body_with_session [OF assms] issue_def py_print_def
        split: sum.splits)
  then show ?thesis
    by (simp add: efetch_args_def)
qed

theorem fetch_records_batch_cap_witness:
  "webenv session1 = Some ''WE1'' \<and> query_key session1 = Some ''1''
   \<and> calls (snd (fetch_records service_ok session1 0 1000 world0))
       = [Efetch [(''db'', StrArg ''nucleotide''), (''rettype'', StrArg ''gb''),
                  (''retmode'', StrArg ''text''), (''retstart'', IntArg 0),
                  (''retmax'', IntArg 500), (''webenv'', StrArg ''WE1''),
                  (''query_key'', StrArg ''1'')]]"
  using fetch_records_batch_cap
    [where self = session1 and we = "''WE1''" and qk = "''1''" and e = service_ok
       and start = 0 and max_records = 1000 and w = world0]
  by (simp add: session1_def world0_def efetch_args_def)

text \<open>
  Claim C3. When the remote call raises, or the parsing of its payload raises,
  \<open>fetch_records\<close> catches the exception: it returns the empty list, prints the error
  line and writes no file; nothing is propagated to the caller.
\<close>

theorem fetch_records_failure_caught:
  assumes "webenv self = Some we" and "query_key self = Some qk"
    and "efetch e (efetch_args start (min max_records 500) we qk) = Inl x
         \<or> (\<exists>handle. efetch e (efetch_args start (min max_records 500) we qk) = Inr handle
                      \<and> seqio_parse e handle ''gb'' = Inl x)"
  shows "fst (fetch_records e self start max_records w) = Inr []
       \<and> stdout (snd (fetch_records e self start max_records w))
           = stdout w @ [''Error fetching records: '' @ exc_str x]
       \<and> files (snd (fetch_records e self start max_records w)) = files w"
  using assms(1,2,3)
  by (auto simp: fetch_records_def fetch_body_with_session [OF assms(1,2)] issue_def py_print_def)

theorem fetch_records_failure_caught_witness:
  "webenv session1 = Some ''WE1'' \<and> query_key session1 = Some ''1''
   \<and> efetch service_down (efetch_args 0 (min 200 500) ''WE1'' ''1'')
       = Inl (LibraryError ''HTTP Error 502: Bad Gateway'')
   \<and> fst (fetch_records service_down session1 0 200 world0) = Inr []
   \<and> stdout (snd (fetch_records service_down session1 0 200 world0))
       = [''Error fetching records: HTTP Error 502: Bad Gateway'']
   \<and> efetch service_garbled (efetch_args 0 (min 200 500) ''WE1'' ''1'') = Inr ''payload''
   \<and> seqio_parse service_garbled ''payload'' ''gb'' = Inl (ValueError ''Premature end of line'')
   \<and> fst (fetch_records service_garbled session1 0 200 world0) = Inr []
   \<and> stdout (snd (fetch_records service_garbled session1 0 200 world0))
       = [''Error fetching records: Premature end of line'']"
proof -
  have s: "webenv session1 = Some ''WE1''" "query_key session1 = Some ''1''"
    by (simp_all add: session1_def)
  have down: "efetch service_down (efetch_args 0 (min 200 500) ''WE1'' ''1'')
       = Inl (LibraryError ''HTTP Error 502: Bad Gateway'')"
    by (simp add: service_down_def service_ok_def)
  have garbled: "efetch service_garbled (efetch_args 0 (min 200 500) ''WE1'' ''1'') = Inr ''payload''"
    "seqio_parse service_garbled ''payload'' ''gb'' = Inl (ValueError ''Premature end of line'')"
    by (simp_all add: service_garbled_def service_ok_def)
  show ?thesis
    using s down garbled
      fetch_records_failure_caught
        [where self = session1 and we = "''WE1''" and qk = "''1''" and e = service_down
           and start = 0 and max_records = 200 and w = world0
           and x = "LibraryError ''HTTP Error 502: Bad Gateway''"]
      fetch_records_failure_caught
        [where self = session1 and we = "''WE1''" and qk = "''1''" and e = service_garbled
           and start = 0 and max_records = 200 and w = world0
           and x = "ValueError ''Premature end of line''"]
    by (simp add: world0_def)
qed

section \<open>Properties of search_taxid\<close>

lemma search_body_lookup_fails:
  assumes "organism_lookup e taxid = Inl x"
  shows "search_body e self taxid w = (Inl x, self, issue (Efetch (taxonomy_args taxid)) w)"
  using assms
  by (auto simp: search_body_def organism_lookup_def Let_def split: sum.splits)

lemma search_body_count_fails:
  assumes "organism_lookup e taxid = Inr name" and "count_lookup e taxid = Inl x"
  shows "search_body e self taxid w =
    (Inl x, self,
     issue (Esearch (esearch_args taxid))
       (py_print (''Organism: '' @ name @ '' (TaxID: '' @ taxid @ '')'')
         (issue (Efetch (taxonomy_args taxid)) w)))"
  using assms
  by (auto simp: search_body_def organism_lookup_def count_lookup_def Let_def split: sum.splits)

lemma search_body_count_zero:
  assumes "organism_lookup e taxid = Inr name" and "count_lookup e taxid = Inr 0"
  shows "search_body e self taxid w =
    (Inr None, self,
     py_print (found_line 0 name taxid)
      (issue (Esearch (esearch_args taxid))
       (py_print (''Organism: '' @ name @ '' (TaxID: '' @ taxid @ '')'')
         (issue (Efetch (taxonomy_args taxid)) w))))"
  using assms
  by (auto simp: search_body_def organism_lookup_def count_lookup_def found_line_def Let_def
      split: sum.splits)

lemma search_body_keeps_handle:
  "(webenv self \<noteq> None \<longrightarrow> webenv (fst (snd (search_body e self taxid w))) \<noteq> None)
   \<and> (query_key self \<noteq> None \<longrightarrow> query_key (fst (snd (search_body e self taxid w))) \<noteq> None)"
  by (auto simp: search_body_def Let_def split: sum.splits)

lemma search_body_success:
  assumes "fst (search_body e self taxid w) = Inr (Some n)"
  shows "webenv (fst (snd (search_body e self taxid w))) \<noteq> None
       \<and> query_key (fst (snd (search_body e self taxid w))) \<noteq> None
       \<and> count' (fst (snd (search_body e self taxid w))) = Some n \<and> n \<noteq> 0"
  using assms
  by (auto simp: search_body_def Let_def split: sum.splits if_splits)

lemma search_body_frame:
  "files (snd (snd (search_body e self taxid w))) = files w
   \<and> heap (snd (snd (search_body e self taxid w))) = heap w
   \<and> filter is_nucleotide_efetch (calls (snd (snd (search_body e self taxid w))))
       = filter is_nucleotide_efetch (calls w)"
  by (auto simp: search_body_def Let_def issue_def py_print_def is_nucleotide_efetch_def
      taxonomy_args_def split: sum.splits)

lemma search_taxid_fst:
  "fst (search_taxid e self taxid w) =
     (case fst (search_body e self taxid (py_print (''Searching for records with taxID: '' @ taxid) w)) of
        Inl x \<Rightarrow> Inr None | Inr result \<Rightarrow> Inr result)"
  by (simp add: search_taxid_def split: prod.splits sum.splits)

lemma search_taxid_self:
  "fst (snd (search_taxid e self taxid w)) =
     fst (snd (search_body e self taxid (py_print (''Searching for records with taxID: '' @ taxid) w)))"
  by (simp add: search_taxid_def split: prod.splits sum.splits)

lemma search_taxid_never_raises:
  "\<exists>result. fst (search_taxid e self taxid w) = Inr result"
  by (simp add: search_taxid_fst split: sum.splits)

lemma search_taxid_keeps_handle:
  "(webenv self \<noteq> None \<longrightarrow> webenv (fst (snd (search_taxid e self taxid w))) \<noteq> None)
   \<and> (query_key self \<noteq> None \<longrightarrow> query_key (fst (snd (search_taxid e self taxid w))) \<noteq> None)"
  unfolding search_taxid_self by (rule search_body_keeps_handle)

lemma search_taxid_success:
  assumes "fst (search_taxid e self taxid w) = Inr (Some n)"
  shows "webenv (fst (snd (search_taxid e self taxid w))) \<noteq> None
       \<and> query_key (fst (snd (search_taxid e self taxid w))) \<noteq> None"
proof -
  have "fst (search_body e self taxid (py_print (''Searching for records with taxID: '' @ taxid) w))
          = Inr (Some n)"
    using assms by (simp add: search_taxid_fst split: sum.splits)
  from search_body_success [OF this] show ?thesis
    by (simp add: search_taxid_self)
qed

lemma py_print_frame:
  "files (py_print s w) = files w" "heap (py_print s w) = heap w"
  "calls (py_print s w) = calls w" "stdin (py_print s w) = stdin w"
  by (simp_all add: py_print_def)

lemma search_taxid_world:
  "snd (snd (search_taxid e self taxid w)) =
     (case fst (search_body e self taxid (py_print (''Searching for records with taxID: '' @ taxid) w)) of
        Inl x \<Rightarrow> py_print (''Error searching TaxID '' @ taxid @ '': '' @ exc_str x)
                  (snd (snd (search_body e self taxid
                     (py_print (''Searching for records with taxID: '' @ taxid) w))))
      | Inr result \<Rightarrow> snd (snd (search_body e self taxid
                     (py_print (''Searching for records with taxID: '' @ taxid) w))))"
  by (simp add: search_taxid_def split: prod.splits sum.splits)

lemma search_taxid_frame:
  "files (snd (snd (search_taxid e self taxid w))) = files w
   \<and> heap (snd (snd (search_taxid e self taxid w))) = heap w
   \<and> filter is_nucleotide_efetch (calls (snd (snd (search_taxid e self taxid w))))
       = filter is_nucleotide_efetch (calls w)"
  unfolding search_taxid_world
  by (simp add: py_print_frame search_body_frame split: sum.splits)

lemma search_taxid_lookup_fails:
  assumes "organism_lookup e taxid = Inl x"
  shows "search_taxid e self taxid w =
    (Inr None, self,
     py_print (error_line taxid x)
       (issue (Efetch (taxonomy_args taxid))
         (py_print (''Searching for records with taxID: '' @ taxid) w)))"
  by (simp add: search_taxid_def search_body_lookup_fails [OF assms] error_line_def)

lemma search_taxid_count_fails:
  assumes "organism_lookup e taxid = Inr name" and "count_lookup e taxid = Inl x"
  shows "search_taxid e self taxid w =
    (Inr None, self,
     py_print (error_line taxid x)
       (issue (Esearch (esearch_args taxid))
         (py_print (''Organism: '' @ name @ '' (TaxID: '' @ taxid @ '')'')
           (issue (Efetch (taxonomy_args taxid))
             (py_print (''Searching for records with taxID: '' @ taxid) w)))))"
  by (simp add: search_taxid_def search_body_count_fails [OF assms] error_line_def)

lemma search_taxid_count_zero:
  assumes "organism_lookup e taxid = Inr name" and "count_lookup e taxid = Inr 0"
  shows "search_taxid e self taxid w =
    (Inr None, self,
     py_print (found_line 0 name taxid)
       (issue (Esearch (esearch_args taxid))
         (py_print (''Organism: '' @ name @ '' (TaxID: '' @ taxid @ '')'')
           (issue (Efetch (taxonomy_args taxid))
             (py_print (''Searching for records with taxID: '' @ taxid) w)))))"
  by (simp add: search_taxid_def search_body_count_zero [OF assms])

lemma last_stdout_py_print: "last (stdout (py_print s w)) = s"
  by (simp add: py_print_def)

lemma found_line_neq_error_line: "found_line n name taxid \<noteq> error_line taxid' x"
  by (simp add: found_line_def error_line_def)

text \<open>
  Claim C4, as the code has it. When both lookup steps succeed and the count is 0,
  the result of \<open>search_taxid\<close> is \<open>None\<close>; when an error occurs during either lookup
  step, its result is \<open>None\<close> as well. The two results are the same value.
\<close>

theorem search_taxid_zero_and_error_both_None:
  assumes "organism_lookup e0 taxid0 = Inr name0" and "count_lookup e0 taxid0 = Inr 0"
    and "organism_lookup e1 taxid1 = Inl x
         \<or> (\<exists>name1. organism_lookup e1 taxid1 = Inr name1 \<and> count_lookup e1 taxid1 = Inl x)"
  shows "fst (search_taxid e0 self0 taxid0 w0) = Inr None
       \<and> fst (search_taxid e1 self1 taxid1 w1) = Inr None
       \<and> fst (search_taxid e0 self0 taxid0 w0) = fst (search_taxid e1 self1 taxid1 w1)"
proof -
  have zero: "fst (search_taxid e0 self0 taxid0 w0) = Inr None"
    by (simp add: search_taxid_count_zero [OF assms(1,2)])
  have err: "fst (search_taxid e1 self1 taxid1 w1) = Inr None"
    using assms(3)
  proof
    assume "organism_lookup e1 taxid1 = Inl x"
    then show ?thesis
      by (simp add: search_taxid_lookup_fails)
  next
    assume "\<exists>name1. organism_lookup e1 taxid1 = Inr name1 \<and> count_lookup e1 taxid1 = Inl x"
    then obtain name1 where "organism_lookup e1 taxid1 = Inr name1" "count_lookup e1 taxid1 = Inl x"
      by blast
    then show ?thesis
      by (simp add: search_taxid_count_fails)
  qed
  show ?thesis
    using zero err by simp
qed

lemma service_zero_lookups:
  "organism_lookup service_zero ''9606'' = Inr ''Homo sapiens''"
  "count_lookup service_zero ''9606'' = Inr 0"
  by (simp_all add: organism_lookup_def count_lookup_def service_zero_def service_ok_def
      getitem0_def getitem_def int_of_decimal_def)

lemma service_down_lookups:
  "organism_lookup service_down ''9606'' = Inl (LibraryError ''HTTP Error 502: Bad Gateway'')"
  "organism_lookup service_down ''562'' = Inl (LibraryError ''HTTP Error 502: Bad Gateway'')"
  by (simp_all add: organism_lookup_def service_down_def service_ok_def)

theorem search_taxid_zero_and_error_both_None_witness:
  "organism_lookup service_zero ''9606'' = Inr ''Homo sapiens''
   \<and> count_lookup service_zero ''9606'' = Inr 0
   \<and> organism_lookup service_down ''9606'' = Inl (LibraryError ''HTTP Error 502: Bad Gateway'')
   \<and> fst (search_taxid service_zero no_session ''9606'' world0) = Inr None
   \<and> fst (search_taxid service_down no_session ''9606'' world0) = Inr None"
proof -
  have "organism_lookup service_down ''9606'' = Inl (LibraryError ''HTTP Error 502: Bad Gateway'')
      \<or> (\<exists>name1. organism_lookup service_down ''9606'' = Inr name1
             \<and> count_lookup service_down ''9606'' = Inl (LibraryError ''HTTP Error 502: Bad Gateway''))"
    by (simp add: service_down_lookups)
  from search_taxid_zero_and_error_both_None
         [OF service_zero_lookups this, of no_session world0 no_session world0]
  have "fst (search_taxid service_zero no_session ''9606'' world0) = Inr None"
    "fst (search_taxid service_down no_session ''9606'' world0) = Inr None"
    by blast+
  with service_zero_lookups service_down_lookups(1) show ?thesis
    by blast
qed

text \<open>
  Claim C4 as the specification words it does not hold: at taxon 9606, the value
  returned when both lookups succeed with zero records is the value returned when the
  service is down.
\<close>

theorem search_taxid_not_found_equals_error:
  "organism_lookup service_zero ''9606'' = Inr ''Homo sapiens''
   \<and> count_lookup service_zero ''9606'' = Inr 0
   \<and> organism_lookup service_down ''9606'' = Inl (LibraryError ''HTTP Error 502: Bad Gateway'')
   \<and> fst (search_taxid service_zero no_session ''9606'' world0)
       = fst (search_taxid service_down no_session ''9606'' world0)
   \<and> fst (search_taxid service_zero no_session ''9606'' world0) = Inr None"
  by (simp add: service_zero_lookups service_down_lookups
      search_taxid_count_zero [OF service_zero_lookups]
      search_taxid_lookup_fails [OF service_down_lookups(1)])

section \<open>The stored session handle\<close>

lemma invoke_keeps_handle:
  assumes "webenv (fst s) \<noteq> None \<and> query_key (fst s) \<noteq> None"
  shows "webenv (fst (invoke e c s)) \<noteq> None \<and> query_key (fst (invoke e c s)) \<noteq> None"
proof (cases s)
  case (Pair self w)
  with assms show ?thesis
    using search_taxid_keeps_handle [of self e _ w]
    by (cases c) simp_all
qed

lemma run_keeps_handle:
  assumes "webenv (fst s) \<noteq> None \<and> query_key (fst s) \<noteq> None"
  shows "webenv (fst (run cs s)) \<noteq> None \<and> query_key (fst (run cs s)) \<noteq> None"
  using assms
proof (induction cs arbitrary: s)
  case Nil
  then show ?case by simp
next
  case (Cons ec cs)
  obtain e c where ec: "ec = (e, c)" by (cases ec)
  have "webenv (fst (invoke e c s)) \<noteq> None \<and> query_key (fst (invoke e c s)) \<noteq> None"
    using Cons.prems by (rule invoke_keeps_handle)
  then show ?case
    using Cons.IH [of "invoke e c s"] by (simp add: ec)
qed

text \<open>
  Every run of \<open>search_taxid\<close> that does not return a count leaves the retriever as it
  was, except the run that raises at line 28.
\<close>

lemma search_body_leaves_retriever:
  assumes "\<not> handle_incomplete e taxid"
    and "\<forall>n. fst (search_body e self taxid w) \<noteq> Inr (Some n)"
  shows "fst (snd (search_body e self taxid w)) = self"
  using assms
  by (auto simp: search_body_def handle_incomplete_def organism_lookup_def count_lookup_def
      search_answer_def getitem_def Let_def split: sum.splits option.splits if_splits)

lemma failed_search_leaves_retriever:
  assumes "fst (search_taxid e self taxid w) = Inr None"
    and "\<not> handle_incomplete e taxid"
  shows "fst (snd (search_taxid e self taxid w)) = self"
proof -
  have "\<forall>n. fst (search_body e self taxid
                (py_print (''Searching for records with taxID: '' @ taxid) w)) \<noteq> Inr (Some n)"
    using assms(1) by (auto simp: search_taxid_fst)
  with assms(2) show ?thesis
    unfolding search_taxid_self by (rule search_body_leaves_retriever)
qed

lemma incomplete_answer_overwrites_webenv:
  assumes "handle_incomplete e taxid" and "search_answer e taxid = Inr search_results"
  shows "fst (search_taxid e self taxid w) = Inr None
       \<and> webenv (fst (snd (search_taxid e self taxid w))) = map_of search_results ''WebEnv''
       \<and> query_key (fst (snd (search_taxid e self taxid w))) = query_key self"
  using assms
  unfolding search_taxid_fst search_taxid_self
  by (auto simp: search_body_def handle_incomplete_def organism_lookup_def count_lookup_def
      search_answer_def getitem_def Let_def split: sum.splits option.splits if_splits)

text \<open>
  Only a successful search creates \<open>query_key\<close>: on a retriever that has none, a
  search that returns \<open>None\<close> leaves it without one, so a retriever on which no search
  has succeeded yet fails the attribute check of \<open>fetch_records\<close>.
\<close>

lemma failed_search_creates_no_query_key:
  assumes "query_key self = None" and "fst (search_taxid e self taxid w) = Inr None"
  shows "query_key (fst (snd (search_taxid e self taxid w))) = None"
proof -
  have "\<And>w'. \<forall>n. fst (search_body e self taxid w') \<noteq> Inr (Some n) \<Longrightarrow>
          query_key (fst (snd (search_body e self taxid w'))) = None"
    using assms(1)
    by (auto simp: search_body_def Let_def split: sum.splits if_splits)
  moreover have "\<forall>n. fst (search_body e self taxid
                (py_print (''Searching for records with taxID: '' @ taxid) w)) \<noteq> Inr (Some n)"
    using assms(2) by (auto simp: search_taxid_fst)
  ultimately show ?thesis
    by (simp add: search_taxid_self)
qed

lemma fetch_records_uses_stored_handle:
  assumes "webenv self = Some we" and "query_key self = Some qk"
  shows "calls (snd (fetch_records e self start max_records w))
           = calls w @ [Efetch (efetch_args start (min max_records 500) we qk)]"
  using assms
  by (simp add: fetch_records_def fetch_body_with_session [OF assms] issue_def py_print_def
      split: sum.splits)

text \<open>
  What holds of the stored handle. Once \<open>search_taxid\<close> has succeeded, \<open>webenv\<close> and
  \<open>query_key\<close> exist, and no sequence of method calls removes either. A later
  \<open>search_taxid\<close> that returns \<open>None\<close> on any path but the one through line 28 leaves
  the retriever as it was; a \<open>fetch_records\<close> after it passes the attribute check and
  sends the earlier handle to the service.
\<close>

lemma stored_handle_survives_failed_search:
  assumes "fst (search_taxid e0 self0 taxid0 w0) = Inr (Some n)"
    and "self = fst (snd (search_taxid e0 self0 taxid0 w0))"
    and "fst (search_taxid e self taxid w) = Inr None"
    and "\<not> handle_incomplete e taxid"
  shows "\<exists>we qk. webenv self = Some we \<and> query_key self = Some qk
       \<and> webenv (fst (run cs (self, w))) \<noteq> None
       \<and> query_key (fst (run cs (self, w))) \<noteq> None
       \<and> fst (snd (search_taxid e self taxid w)) = self
       \<and> calls (snd (fetch_records e' (fst (snd (search_taxid e self taxid w))) start max_records w'))
           = calls w' @ [Efetch (efetch_args start (min max_records 500) we qk)]"
proof -
  have set: "webenv self \<noteq> None \<and> query_key self \<noteq> None"
    using search_taxid_success [OF assms(1)] assms(2) by simp
  then obtain we qk where h: "webenv self = Some we" "query_key self = Some qk"
    by auto
  have kept: "webenv (fst (run cs (self, w))) \<noteq> None \<and> query_key (fst (run cs (self, w))) \<noteq> None"
    using run_keeps_handle [of "(self, w)" cs] set by simp
  have later: "fst (snd (search_taxid e self taxid w)) = self"
    using assms(3,4) by (rule failed_search_leaves_retriever)
  have "calls (snd (fetch_records e' self start max_records w'))
           = calls w' @ [Efetch (efetch_args start (min max_records 500) we qk)]"
    using h by (rule fetch_records_uses_stored_handle)
  with h kept later show ?thesis by simp
qed



section \<open>Properties of generate_csv\<close>

lemma csv_data_map:
  "csv_data records =
     map (\<lambda>r. [StrCell (id' r), IntCell (len (seq r)), StrCell (description r)]) records"
  by (induction records) simp_all

lemma generate_csv_raises:
  assumes "to_csv_raises e filename = Some x"
  shows "generate_csv e records filename w = (Inl x, w)"
  using assms by (simp add: generate_csv_def)

text \<open>
  Claim C9. Whenever \<open>to_csv\<close> can write at \<open>filename\<close>, \<open>generate_csv\<close> returns
  normally and the file at \<open>filename\<close> holds a table whose header row is
  \<open>Accession number, Length, Description\<close> and whose rows are, in the order of the
  input, one row per record holding its id, its length and its description: as many
  rows as records, three cells in each, so no index column.
\<close>

theorem generate_csv_table:
  assumes "to_csv_raises e filename = None"
  shows "fst (generate_csv e records filename w) = Inr ()
       \<and> (\<exists>t. table_at (snd (generate_csv e records filename w)) filename = Some t
            \<and> header t = [''Accession number'', ''Length'', ''Description'']
            \<and> body t = map (\<lambda>r. [StrCell (id' r), IntCell (len (seq r)), StrCell (description r)])
                          records
            \<and> length (body t) = length records
            \<and> map length (body t) = replicate (length records) 3)"
proof -
  have "generate_csv e records filename w
          = (Inr (), py_print (''Saved CSV report to '' @ filename)
                       (write_file filename
                          (CsvFile \<lparr>header = [''Accession number'', ''Length'', ''Description''],
                                    body = csv_data records\<rparr>) w))"
    using assms by (simp add: generate_csv_def to_csv_def DataFrame_def Let_def)
  then have "fst (generate_csv e records filename w) = Inr ()"
    and "table_at (snd (generate_csv e records filename w)) filename
          = Some \<lparr>header = [''Accession number'', ''Length'', ''Description''],
                  body = csv_data records\<rparr>"
    by (simp_all add: table_at_def write_file_def py_print_def)
  moreover have "map length (csv_data records) = replicate (length records) 3"
    by (induction records) simp_all
  ultimately show ?thesis
    by (simp add: csv_data_map)
qed

theorem generate_csv_table_witness:
  "to_csv_raises service_ok ''taxid_9606_report.csv'' = None
   \<and> fst (generate_csv service_ok records3 ''taxid_9606_report.csv'' world0) = Inr ()
   \<and> table_at (snd (generate_csv service_ok records3 ''taxid_9606_report.csv'' world0))
        ''taxid_9606_report.csv''
       = Some \<lparr>header = [''Accession number'', ''Length'', ''Description''],
               body = [[StrCell ''A1'', IntCell 4, StrCell ''first''],
                       [StrCell ''A2'', IntCell 8, StrCell ''second''],
                       [StrCell ''A3'', IntCell 6, StrCell ''third'']]\<rparr>"
proof -
  have ok: "to_csv_raises service_ok ''taxid_9606_report.csv'' = None"
    by (simp add: service_ok_def)
  from generate_csv_table [OF ok, of records3 world0]
  obtain t where t: "fst (generate_csv service_ok records3 ''taxid_9606_report.csv'' world0) = Inr ()"
    "table_at (snd (generate_csv service_ok records3 ''taxid_9606_report.csv'' world0))
        ''taxid_9606_report.csv'' = Some t"
    "header t = [''Accession number'', ''Length'', ''Description'']"
    "body t = map (\<lambda>r. [StrCell (id' r), IntCell (len (seq r)), StrCell (description r)]) records3"
    by blast
  have "body t = [[StrCell ''A1'', IntCell 4, StrCell ''first''],
                  [StrCell ''A2'', IntCell 8, StrCell ''second''],
                  [StrCell ''A3'', IntCell 6, StrCell ''third'']]"
    unfolding t(4) by (simp add: records3_def len_def)
  with t(3) have "t = \<lparr>header = [''Accession number'', ''Length'', ''Description''],
               body = [[StrCell ''A1'', IntCell 4, StrCell ''first''],
                       [StrCell ''A2'', IntCell 8, StrCell ''second''],
                       [StrCell ''A3'', IntCell 6, StrCell ''third'']]\<rparr>"
    by simp
  with ok t(1,2) show ?thesis
    by simp
qed

section \<open>Properties of generate_plot\<close>

lemma stable_sort_reverse_mset: "mset (stable_sort key True xs) = mset xs"
  by (simp add: stable_sort_def)

lemma stable_sort_reverse_descending:
  "sorted_wrt (\<lambda>a b. key b \<le> key a) (stable_sort key True xs)"
proof -
  have "sorted (map key (sort_key key (rev xs)))"
    by simp
  then have "sorted_wrt (\<lambda>a b. key a \<le> key b) (sort_key key (rev xs))"
    by (simp add: sorted_wrt_map)
  then show ?thesis
    by (simp add: stable_sort_def sorted_wrt_rev)
qed

lemma stable_sort_reverse_stable:
  "filter (\<lambda>x. key x = k) (stable_sort key True xs) = filter (\<lambda>x. key x = k) xs"
proof -
  have "filter (\<lambda>x. key x = k) (rev (sort_key key (rev xs)))
          = rev (filter (\<lambda>x. key x = k) (sort_key key (rev xs)))"
    by (simp add: rev_filter)
  also have "\<dots> = rev (filter (\<lambda>x. key x = k) (rev xs))"
    by (simp add: sort_key_stable)
  also have "\<dots> = filter (\<lambda>x. key x = k) xs"
    by (simp add: rev_filter)
  finally show ?thesis
    by (simp add: stable_sort_def)
qed

lemma sorted_py_heap:
  "sorted_py a key reverse w =
     (length (heap w), w\<lparr>heap := heap w @ [stable_sort key reverse (deref w a)]\<rparr>)"
  by (simp add: sorted_py_def new_list_def list_sort_def deref_def)

lemma generate_plot_heap:
  "heap (snd (generate_plot e records filename w))
     = heap w @ [stable_sort (\<lambda>r. len (seq r)) True (deref w records)]"
  by (simp add: generate_plot_def sorted_py_heap write_file_def py_print_def Let_def
      split: sum.splits)

lemma generate_plot_saved:
  assumes "savefig_path e filename = Inr path"
  shows "fst (generate_plot e records filename w) = Inr ()
       \<and> plotted_at (snd (generate_plot e records filename w)) path
           = Some (map id' (stable_sort (\<lambda>r. len (seq r)) True (deref w records)),
                   map (\<lambda>r. len (seq r)) (stable_sort (\<lambda>r. len (seq r)) True (deref w records)))"
  using assms
  by (simp add: generate_plot_def sorted_py_heap write_file_def py_print_def plotted_at_def
      deref_def Let_def)

lemma generate_plot_raises:
  assumes "savefig_path e filename = Inl x"
  shows "fst (generate_plot e records filename w) = Inl x
       \<and> files (snd (generate_plot e records filename w)) = files w
       \<and> stdout (snd (generate_plot e records filename w)) = stdout w"
  using assms
  by (simp add: generate_plot_def sorted_py_heap Let_def)

text \<open>
  Claim C8. \<open>generate_plot\<close> builds a sorted copy of its argument: a new list object
  with the same records, in descending order of length, in which records of equal
  length keep their original relative order. Whenever \<open>savefig\<close> writes the figure, to
  \<open>path\<close>, the figure at \<open>path\<close> plots the ids of that copy against its lengths. The
  caller's list, and every list that existed before the call, is unchanged, whether
  \<open>savefig\<close> writes or raises.
\<close>

theorem generate_plot_sorted_copy:
  assumes "records < length (heap w)"
  shows "\<exists>sorted_records.
           deref (snd (generate_plot e records filename w)) (length (heap w)) = sorted_records
         \<and> mset sorted_records = mset (deref w records)
         \<and> sorted_wrt (\<lambda>r s. len (seq s) \<le> len (seq r)) sorted_records
         \<and> (\<forall>k. filter (\<lambda>r. len (seq r) = k) sorted_records
                  = filter (\<lambda>r. len (seq r) = k) (deref w records))
         \<and> (\<forall>path. savefig_path e filename = Inr path \<longrightarrow>
                fst (generate_plot e records filename w) = Inr ()
              \<and> plotted_at (snd (generate_plot e records filename w)) path
                  = Some (map id' sorted_records, map (\<lambda>r. len (seq r)) sorted_records))
         \<and> deref (snd (generate_plot e records filename w)) records = deref w records
         \<and> take (length (heap w)) (heap (snd (generate_plot e records filename w))) = heap w"
proof -
  let ?S = "stable_sort (\<lambda>r. len (seq r)) True (deref w records)"
  let ?w' = "snd (generate_plot e records filename w)"
  have "deref ?w' (length (heap w)) = ?S"
    by (simp add: deref_def generate_plot_heap)
  moreover have "mset ?S = mset (deref w records)"
    by (rule stable_sort_reverse_mset)
  moreover have "sorted_wrt (\<lambda>r s. len (seq s) \<le> len (seq r)) ?S"
    by (rule stable_sort_reverse_descending)
  moreover have "\<forall>k. filter (\<lambda>r. len (seq r) = k) ?S
                  = filter (\<lambda>r. len (seq r) = k) (deref w records)"
    by (simp add: stable_sort_reverse_stable)
  moreover have "\<forall>path. savefig_path e filename = Inr path \<longrightarrow>
                fst (generate_plot e records filename w) = Inr ()
              \<and> plotted_at ?w' path = Some (map id' ?S, map (\<lambda>r. len (seq r)) ?S)"
    using generate_plot_saved by blast
  moreover have "deref ?w' records = deref w records"
    using assms by (simp add: deref_def generate_plot_heap nth_append)
  moreover have "take (length (heap w)) (heap ?w') = heap w"
    by (simp add: generate_plot_heap)
  ultimately show ?thesis
    by blast
qed

theorem generate_plot_sorted_copy_witness:
  "0 < length (heap world_with_list)
   \<and> deref world_with_list 0 = records_ties
   \<and> savefig_path service_ok ''plot'' = Inr ''plot.png''
   \<and> fst (generate_plot service_ok 0 ''plot'' world_with_list) = Inr ()
   \<and> plotted_at (snd (generate_plot service_ok 0 ''plot'' world_with_list)) ''plot.png''
       = Some ([''B2'', ''B1'', ''B3''], [8, 4, 4])
   \<and> deref (snd (generate_plot service_ok 0 ''plot'' world_with_list)) 0 = records_ties
   \<and> savefig_path service_no_directory ''out/plot.png'' = Inl (OSError ''No such file or directory'')
   \<and> deref (snd (generate_plot service_no_directory 0 ''out/plot.png'' world_with_list)) 0
       = records_ties"
proof -
  have a: "0 < length (heap world_with_list)" "deref world_with_list 0 = records_ties"
    by (simp_all add: world_with_list_def world0_def deref_def)
  have b: "stable_sort (\<lambda>r. len (seq r)) True records_ties
             = [records_ties ! 1, records_ties ! 0, records_ties ! 2]"
    by (simp add: stable_sort_def records_ties_def len_def)
  have p: "savefig_path service_ok ''plot'' = Inr ''plot.png''"
    "savefig_path service_no_directory ''out/plot.png'' = Inl (OSError ''No such file or directory'')"
    by (simp_all add: service_ok_def service_no_directory_def)
  from generate_plot_sorted_copy [OF a(1), of service_ok "''plot''"]
  obtain S where S: "deref (snd (generate_plot service_ok 0 ''plot'' world_with_list))
                       (length (heap world_with_list)) = S"
    "mset S = mset (deref world_with_list 0)"
    "\<forall>path. savefig_path service_ok ''plot'' = Inr path \<longrightarrow>
        fst (generate_plot service_ok 0 ''plot'' world_with_list) = Inr ()
      \<and> plotted_at (snd (generate_plot service_ok 0 ''plot'' world_with_list)) path
          = Some (map id' S, map (\<lambda>r. len (seq r)) S)"
    "deref (snd (generate_plot service_ok 0 ''plot'' world_with_list)) 0 = deref world_with_list 0"
    by blast
  have "S = [records_ties ! 1, records_ties ! 0, records_ties ! 2]"
    using S(1) by (simp add: deref_def generate_plot_heap a(2) [unfolded deref_def] b)
  then have series: "map id' S = [''B2'', ''B1'', ''B3'']" "map (\<lambda>r. len (seq r)) S = [8, 4, 4]"
    by (simp_all add: records_ties_def len_def)
  from S(3) p(1) have saved: "fst (generate_plot service_ok 0 ''plot'' world_with_list) = Inr ()"
    "plotted_at (snd (generate_plot service_ok 0 ''plot'' world_with_list)) ''plot.png''
       = Some (map id' S, map (\<lambda>r. len (seq r)) S)"
    by blast+
  from generate_plot_sorted_copy [OF a(1), of service_no_directory "''out/plot.png''"]
  have kept: "deref (snd (generate_plot service_no_directory 0 ''out/plot.png'' world_with_list)) 0
       = deref world_with_list 0"
    by blast
  show ?thesis
    using a p saved S(4) kept by (simp add: series)
qed

section \<open>Properties of main\<close>

lemma py_input_frame:
  "files (snd (py_input prompt w)) = files w
   \<and> heap (snd (py_input prompt w)) = heap w
   \<and> calls (snd (py_input prompt w)) = calls w"
  by (simp add: py_input_def Let_def split: list.splits)

lemma read_inputs_frame:
  "files (snd (read_inputs e w)) = files w
   \<and> heap (snd (read_inputs e w)) = heap w
   \<and> calls (snd (read_inputs e w)) = calls w"
proof -
  have step: "\<And>prompt w r w'. py_input prompt w = (r, w') \<Longrightarrow>
      files w' = files w \<and> heap w' = heap w \<and> calls w' = calls w"
    using py_input_frame by (metis snd_conv)
  show ?thesis
    by (auto simp: read_inputs_def init_def split: prod.splits sum.splits dest!: step)
qed

lemma pipeline_without_results:
  assumes "fst (search_taxid e self taxid w) = Inr None"
  shows "pipeline e self taxid min_len max_len w
           = (Inr (), py_print ''No records found. Exiting.'' (snd (snd (search_taxid e self taxid w))))"
proof -
  obtain r self1 w1 where s: "search_taxid e self taxid w = (r, self1, w1)"
    by (cases "search_taxid e self taxid w") auto
  with assms have "r = Inr None" by simp
  with s show ?thesis
    by (simp add: pipeline_def falsy_def)
qed

text \<open>
  Claim C5. In every run of \<open>main\<close> in which the inputs are read and \<open>search_taxid\<close>
  returns \<open>None\<close> (zero records, or a failure), \<open>main\<close> returns normally right after
  printing \<open>No records found. Exiting.\<close>: the world it leaves is the world
  \<open>search_taxid\<close> left plus that line. No file is written, no list is built, and no
  nucleotide fetch is sent, so \<open>fetch_records\<close>, which always prints or fetches, did
  not run.
\<close>

theorem main_stops_without_results:
  assumes "fst (read_inputs e w) = Inr (self, taxid, min_len, max_len)"
    and "fst (search_taxid e self taxid (snd (read_inputs e w))) = Inr None"
  shows "fst (main e w) = Inr ()
       \<and> snd (main e w)
           = py_print ''No records found. Exiting.''
               (snd (snd (search_taxid e self taxid (snd (read_inputs e w)))))
       \<and> last (stdout (snd (main e w))) = ''No records found. Exiting.''
       \<and> files (snd (main e w)) = files w
       \<and> heap (snd (main e w)) = heap w
       \<and> filter is_nucleotide_efetch (calls (snd (main e w)))
           = filter is_nucleotide_efetch (calls w)"
proof -
  let ?w1 = "snd (read_inputs e w)"
  let ?w2 = "snd (snd (search_taxid e self taxid ?w1))"
  obtain r w1 where ri: "read_inputs e w = (r, w1)"
    by (cases "read_inputs e w") auto
  with assms(1) have "r = Inr (self, taxid, min_len, max_len)" "?w1 = w1"
    by simp_all
  with ri have "main e w = pipeline e self taxid min_len max_len ?w1"
    by (simp add: main_def)
  then have m: "main e w = (Inr (), py_print ''No records found. Exiting.'' ?w2)"
    by (simp add: pipeline_without_results [OF assms(2)])
  have frame: "files ?w2 = files w" "heap ?w2 = heap w"
    "filter is_nucleotide_efetch (calls ?w2) = filter is_nucleotide_efetch (calls w)"
    using search_taxid_frame [of e self taxid ?w1] read_inputs_frame [of e w]
    by simp_all
  show ?thesis
    unfolding m by (simp add: py_print_frame last_stdout_py_print frame)
qed

lemma read_inputs_example:
  "fst (read_inputs service_zero world_with_inputs) = Inr (no_session, ''9606'', 3, 7)"
  "fst (read_inputs service_down world_with_inputs) = Inr (no_session, ''9606'', 3, 7)"
  by (simp_all add: read_inputs_def py_input_def init_def world_with_inputs_def world0_def
      service_zero_def service_down_def service_ok_def int_of_decimal_def no_session_def Let_def)

theorem main_stops_without_results_witness:
  "fst (read_inputs service_zero world_with_inputs) = Inr (no_session, ''9606'', 3, 7)
   \<and> fst (search_taxid service_zero no_session ''9606'' (snd (read_inputs service_zero world_with_inputs)))
       = Inr None
   \<and> fst (main service_zero world_with_inputs) = Inr ()
   \<and> last (stdout (snd (main service_zero world_with_inputs))) = ''No records found. Exiting.''
   \<and> files (snd (main service_zero world_with_inputs)) = Map.empty
   \<and> filter is_nucleotide_efetch (calls (snd (main service_zero world_with_inputs))) = []
   \<and> fst (read_inputs service_down world_with_inputs) = Inr (no_session, ''9606'', 3, 7)
   \<and> fst (search_taxid service_down no_session ''9606'' (snd (read_inputs service_down world_with_inputs)))
       = Inr None
   \<and> fst (main service_down world_with_inputs) = Inr ()
   \<and> last (stdout (snd (main service_down world_with_inputs))) = ''No records found. Exiting.''
   \<and> files (snd (main service_down world_with_inputs)) = Map.empty
   \<and> filter is_nucleotide_efetch (calls (snd (main service_down world_with_inputs))) = []"
proof -
  have a: "organism_lookup service_zero ''9606'' = Inr ''Homo sapiens''"
    by (simp add: organism_lookup_def service_zero_def service_ok_def getitem0_def getitem_def)
  have b: "count_lookup service_zero ''9606'' = Inr 0"
    by (simp add: count_lookup_def service_zero_def service_ok_def getitem_def int_of_decimal_def)
  have c: "organism_lookup service_down ''9606'' = Inl (LibraryError ''HTTP Error 502: Bad Gateway'')"
    by (simp add: organism_lookup_def service_down_def service_ok_def)
  have zero: "fst (search_taxid service_zero no_session ''9606''
                (snd (read_inputs service_zero world_with_inputs))) = Inr None"
    by (simp add: search_taxid_count_zero [OF a b])
  have down: "fst (search_taxid service_down no_session ''9606''
                (snd (read_inputs service_down world_with_inputs))) = Inr None"
    by (simp add: search_taxid_lookup_fails [OF c])
  have w: "files world_with_inputs = Map.empty" "calls world_with_inputs = []"
    by (simp_all add: world_with_inputs_def world0_def)
  from main_stops_without_results [OF read_inputs_example(1) zero]
  have z: "fst (main service_zero world_with_inputs) = Inr ()"
    "last (stdout (snd (main service_zero world_with_inputs))) = ''No records found. Exiting.''"
    "files (snd (main service_zero world_with_inputs)) = files world_with_inputs"
    "filter is_nucleotide_efetch (calls (snd (main service_zero world_with_inputs)))
       = filter is_nucleotide_efetch (calls world_with_inputs)"
    by blast+
  from main_stops_without_results [OF read_inputs_example(2) down]
  have d: "fst (main service_down world_with_inputs) = Inr ()"
    "last (stdout (snd (main service_down world_with_inputs))) = ''No records found. Exiting.''"
    "files (snd (main service_down world_with_inputs)) = files world_with_inputs"
    "filter is_nucleotide_efetch (calls (snd (main service_down world_with_inputs)))
       = filter is_nucleotide_efetch (calls world_with_inputs)"
    by blast+
  from read_inputs_example zero down z d show ?thesis
    by (simp add: w)
qed

text \<open>
  For contrast, a run in which the search finds three records: the records are
  fetched in one call of at most 200, the two of length 3 to 7 are kept, the table has
  them in fetch order and the plot has them by descending length.
\<close>

lemma main_with_results_example:
  "fst (main service_ok world_with_inputs) = Inr ()
   \<and> filter is_nucleotide_efetch (calls (snd (main service_ok world_with_inputs)))
       = [Efetch (efetch_args 0 200 ''WE1'' ''1'')]
   \<and> table_at (snd (main service_ok world_with_inputs)) ''taxid_9606_report.csv''
       = Some \<lparr>header = [''Accession number'', ''Length'', ''Description''],
               body = [[StrCell ''A1'', IntCell 4, StrCell ''first''],
                       [StrCell ''A3'', IntCell 6, StrCell ''third'']]\<rparr>
   \<and> plotted_at (snd (main service_ok world_with_inputs)) ''taxid_9606_plot.png''
       = Some ([''A3'', ''A1''], [6, 4])"
  by (simp add: main_def read_inputs_def py_input_def init_def world_with_inputs_def world0_def
      pipeline_def search_taxid_def search_body_def fetch_records_def
      fetch_body_def generate_csv_def generate_plot_def sorted_py_heap new_list_def deref_def
      stable_sort_def to_csv_def DataFrame_def write_file_def table_at_def plotted_at_def
      py_print_def issue_def is_nucleotide_efetch_def taxonomy_args_def esearch_args_def
      efetch_args_def getitem0_def getitem_def falsy_def service_ok_def int_of_decimal_def
      records3_def len_def Let_def)

text \<open>
  And a run in which the table cannot be written: with the taxid \<open>96/06\<close> the report
  would go into a directory that does not exist, \<open>to_csv\<close> raises, and the exception
  ends \<open>main\<close> before any file is written or \<open>Saved CSV report\<close> is printed.
\<close>

lemma main_csv_failure_example:
  "fst (main service_no_directory world_with_slash)
     = Inl (OSError ''Cannot save file into a non-existent directory'')
   \<and> files (snd (main service_no_directory world_with_slash)) = Map.empty
   \<and> last (stdout (snd (main service_no_directory world_with_slash)))
       = ''Fetched 3 records. Filtering by length...''"
  by (simp add: main_def read_inputs_def py_input_def init_def world_with_slash_def world0_def
      pipeline_def search_taxid_def search_body_def fetch_records_def
      fetch_body_def generate_csv_def new_list_def deref_def
      py_print_def issue_def taxonomy_args_def esearch_args_def
      efetch_args_def getitem0_def getitem_def falsy_def service_no_directory_def service_ok_def
      int_of_decimal_def records3_def len_def str_int_def str_nat.simps digit_char_def Let_def)

end
